theory Spec2Isabelle
  imports Main
begin

section \<open>The request configuration of the GLAIR Vision Go SDK\<close>

text \<open>
  The package \<open>glair\<close> declares the struct \<open>Config\<close>, its constructor \<open>NewConfig\<close>,
  the URL helper \<open>GetEndpointURL\<close> and five chaining setters that write through a
  \<open>*Config\<close> receiver. The receiver is a pointer, the setters mutate the object it designates
  and hand the same pointer back, so the embedding keeps an explicit store of \<open>Config\<close>
  objects and passes the program state through every operation. A nil dereference, the only
  run-time panic these functions can raise, is a value of the result type.
\<close>

subsection \<open>Strings\<close>

text \<open>
  A Go string is a sequence of bytes, and so is a HOL \<open>string\<close>. \<open>strings.Join\<close> of the Go
  standard library returns the empty string for no element, the element itself for one, and
  otherwise the elements with the separator between each two of them.
\<close>

fun strings_Join :: "string list \<Rightarrow> string \<Rightarrow> string" where
  "strings_Join [] sep = []"
| "strings_Join [x] sep = x"
| "strings_Join (x # y # ys) sep = x @ sep @ strings_Join (y # ys) sep"

subsection \<open>Pointers, interface values and the struct\<close>

text \<open>
  A pointer is nil or the address of an object. Go is garbage collected: a pointer that is
  not nil always designates an object, so the store below is total.
\<close>

datatype ptr = NilPtr | Ref nat

text \<open>
  \<open>HTTPClient\<close> is an interface. A value of it is the nil interface, or holds a dynamic value:
  a \<open>*http.Client\<close> (what \<open>NewConfig\<close> stores, converted from the package variable
  \<open>defaultClient\<close>), or some implementation of the caller's, identified by a number. An
  interface value that holds a pointer is not the nil interface, whatever the pointer is.
\<close>

datatype HTTPClient = HTTPClient_nil | HTTPClient_http_Client ptr | HTTPClient_impl nat

text \<open>
  Modelled from the spec: the declarations of \<open>Logger\<close>, \<open>LeveledLogger\<close> and \<open>LevelNone\<close>
  are not part of the source at hand. The spec calls the logger field an interface-typed
  capability reference; \<open>NewConfig\<close> stores in it the package variable \<open>defaultLogger\<close>, a
  \<open>*LeveledLogger\<close>. So \<open>Logger\<close> is an interface, as \<open>HTTPClient\<close> is.
\<close>

datatype Logger = Logger_nil | Logger_LeveledLogger ptr | Logger_impl nat

record Config =
  Username :: string
  Password :: string
  ApiKey :: string
  BaseUrl :: string
  ApiVersion :: string
  Client :: HTTPClient
  Logger :: Logger

definition defaultUrl :: string where
  "defaultUrl = ''https://api.vision.glair.ai''"

definition defaultVersion :: string where
  "defaultVersion = ''v1''"

subsection \<open>Program state\<close>

text \<open>
  The state holds the \<open>Config\<close> objects by address, the next address an allocation uses, and
  the two package variables \<open>defaultClient\<close> (a \<open>*http.Client\<close>) and \<open>defaultLogger\<close>
  (a \<open>*LeveledLogger\<close>).
\<close>

record state =
  configs :: "nat \<Rightarrow> Config"
  next_config :: nat
  defaultClient :: ptr
  defaultLogger :: ptr

datatype panic = NilPointerDereference

definition and_then :: "panic + 'a \<Rightarrow> ('a \<Rightarrow> panic + 'b) \<Rightarrow> panic + 'b" where
  "and_then r f = (case r of Inl e \<Rightarrow> Inl e | Inr x \<Rightarrow> f x)"

text \<open>Reading \<open>c.f\<close> and executing \<open>c.f = v\<close> both panic when \<open>c\<close> is nil.\<close>

definition read_field :: "state \<Rightarrow> ptr \<Rightarrow> (Config \<Rightarrow> 'a) \<Rightarrow> panic + 'a" where
  "read_field s c f =
     (case c of NilPtr \<Rightarrow> Inl NilPointerDereference | Ref a \<Rightarrow> Inr (f (configs s a)))"

definition write_field :: "state \<Rightarrow> ptr \<Rightarrow> (Config \<Rightarrow> Config) \<Rightarrow> panic + state" where
  "write_field s c upd =
     (case c of
        NilPtr \<Rightarrow> Inl NilPointerDereference
      | Ref a \<Rightarrow> Inr (s\<lparr>configs := (configs s)(a := upd (configs s a))\<rparr>))"

subsection \<open>The operations\<close>

text \<open>\<open>NewConfig\<close> allocates a fresh object and returns its address.\<close>

definition NewConfig :: "state \<Rightarrow> string \<Rightarrow> string \<Rightarrow> string \<Rightarrow> ptr \<times> state" where
  "NewConfig s username password apiKey =
     (let a = next_config s;
          cfg = \<lparr>Username = username,
                 Password = password,
                 ApiKey = apiKey,
                 BaseUrl = defaultUrl,
                 ApiVersion = defaultVersion,
                 Client = HTTPClient_http_Client (defaultClient s),
                 Logger = Logger_LeveledLogger (defaultLogger s)\<rparr>
      in (Ref a, s\<lparr>configs := (configs s)(a := cfg), next_config := Suc a\<rparr>))"

text \<open>\<open>GetEndpointURL\<close> has no nil check: it reads \<open>c.BaseUrl\<close>, then \<open>c.ApiVersion\<close>.\<close>

definition GetEndpointURL :: "state \<Rightarrow> ptr \<Rightarrow> string \<Rightarrow> string \<Rightarrow> panic + string" where
  "GetEndpointURL s c service endpoint =
     and_then (read_field s c BaseUrl) (\<lambda>base.
     and_then (read_field s c ApiVersion) (\<lambda>version.
       Inr (strings_Join [base, service, version, endpoint] ''/'')))"

definition WithCredentials ::
  "state \<Rightarrow> ptr \<Rightarrow> string \<Rightarrow> string \<Rightarrow> string \<Rightarrow> panic + ptr \<times> state" where
  "WithCredentials s c username password apiKey =
     (if c = NilPtr then Inr (NilPtr, s)
      else
        and_then (write_field s c (\<lambda>cfg. cfg\<lparr>Username := username\<rparr>)) (\<lambda>s1.
        and_then (write_field s1 c (\<lambda>cfg. cfg\<lparr>Password := password\<rparr>)) (\<lambda>s2.
        and_then (write_field s2 c (\<lambda>cfg. cfg\<lparr>ApiKey := apiKey\<rparr>)) (\<lambda>s3.
          Inr (c, s3)))))"

definition WithClient :: "state \<Rightarrow> ptr \<Rightarrow> HTTPClient \<Rightarrow> panic + ptr \<times> state" where
  "WithClient s c client =
     (if c = NilPtr then Inr (NilPtr, s)
      else and_then (write_field s c (\<lambda>cfg. cfg\<lparr>Client := client\<rparr>)) (\<lambda>s1. Inr (c, s1)))"

definition WithBaseURL :: "state \<Rightarrow> ptr \<Rightarrow> string \<Rightarrow> panic + ptr \<times> state" where
  "WithBaseURL s c url =
     (if c = NilPtr then Inr (NilPtr, s)
      else and_then (write_field s c (\<lambda>cfg. cfg\<lparr>BaseUrl := url\<rparr>)) (\<lambda>s1. Inr (c, s1)))"

definition WithVersion :: "state \<Rightarrow> ptr \<Rightarrow> string \<Rightarrow> panic + ptr \<times> state" where
  "WithVersion s c version =
     (if c = NilPtr then Inr (NilPtr, s)
      else and_then (write_field s c (\<lambda>cfg. cfg\<lparr>ApiVersion := version\<rparr>)) (\<lambda>s1. Inr (c, s1)))"

definition WithLogger :: "state \<Rightarrow> ptr \<Rightarrow> Logger \<Rightarrow> panic + ptr \<times> state" where
  "WithLogger s c logger =
     (if c = NilPtr then Inr (NilPtr, s)
      else and_then (write_field s c (\<lambda>cfg. cfg\<lparr>Logger := logger\<rparr>)) (\<lambda>s1. Inr (c, s1)))"

subsection \<open>The state after package initialisation, and the fields two objects differ in\<close>

text \<open>
  The zero value of \<open>Config\<close> has empty strings and nil interfaces. After initialisation no
  \<open>Config\<close> is allocated, \<open>defaultClient\<close> is \<open>http.DefaultClient\<close> and \<open>defaultLogger\<close> is
  the address of the \<open>LeveledLogger\<close> that the initialiser allocates.
\<close>

definition zero_Config :: Config where
  "zero_Config =
     \<lparr>Username = [], Password = [], ApiKey = [], BaseUrl = [], ApiVersion = [],
      Client = HTTPClient_nil, Logger = Logger_nil\<rparr>"

definition init_state :: state where
  "init_state =
     \<lparr>configs = (\<lambda>_. zero_Config), next_config = 0,
      defaultClient = Ref 0, defaultLogger = Ref 0\<rparr>"

datatype field =
  F_Username | F_Password | F_ApiKey | F_BaseUrl | F_ApiVersion | F_Client | F_Logger

definition differing_fields :: "Config \<Rightarrow> Config \<Rightarrow> field list" where
  "differing_fields x y =
     (if Username x = Username y then [] else [F_Username]) @
     (if Password x = Password y then [] else [F_Password]) @
     (if ApiKey x = ApiKey y then [] else [F_ApiKey]) @
     (if BaseUrl x = BaseUrl y then [] else [F_BaseUrl]) @
     (if ApiVersion x = ApiVersion y then [] else [F_ApiVersion]) @
     (if Client x = Client y then [] else [F_Client]) @
     (if Logger x = Logger y then [] else [F_Logger])"

definition changed_fields :: "state \<Rightarrow> nat \<Rightarrow> panic + ptr \<times> state \<Rightarrow> field list" where
  "changed_fields s a r =
     (case r of
        Inl e \<Rightarrow> []
      | Inr (c, s') \<Rightarrow> differing_fields (configs s a) (configs s' a))"

text \<open>
  Two states for concrete runs. In \<open>example_state\<close> one configuration has been built by
  \<open>NewConfig\<close>; in \<open>other_state\<close> the object at the same address has other credentials, another
  client and another logger, and the same base URL and version.
\<close>

definition example_state :: state where
  "example_state = snd (NewConfig init_state ''user'' ''pass'' ''key'')"

definition other_state :: state where
  "other_state =
     init_state
       \<lparr>configs := (configs init_state)
          (0 := \<lparr>Username = ''alice'', Password = ''secret'', ApiKey = ''abc'',
                 BaseUrl = defaultUrl, ApiVersion = defaultVersion,
                 Client = HTTPClient_impl 7, Logger = Logger_impl 3\<rparr>),
        next_config := 1\<rparr>"


section \<open>Properties\<close>

subsection \<open>Helper facts\<close>

lemma and_then_Inr: "and_then (Inr x) f = f x"
  by (simp add: and_then_def)

lemma and_then_Inl: "and_then (Inl e) f = Inl e"
  by (simp add: and_then_def)

lemma read_field_Ref: "read_field s (Ref a) f = Inr (f (configs s a))"
  by (simp add: read_field_def)

lemma read_field_NilPtr: "read_field s NilPtr f = Inl NilPointerDereference"
  by (simp add: read_field_def)

lemma write_field_Ref:
  "write_field s (Ref a) upd = Inr (s\<lparr>configs := (configs s)(a := upd (configs s a))\<rparr>)"
  by (simp add: write_field_def)

lemma GetEndpointURL_Ref:
  "GetEndpointURL s (Ref a) service endpoint =
     Inr (BaseUrl (configs s a) @ ''/'' @ service @ ''/'' @ ApiVersion (configs s a) @ ''/'' @ endpoint)"
  by (simp add: GetEndpointURL_def read_field_Ref and_then_Inr)

lemma WithCredentials_Ref:
  "WithCredentials s (Ref a) username password apiKey =
     Inr (Ref a, s\<lparr>configs := (configs s)
       (a := (configs s a)\<lparr>Username := username, Password := password, ApiKey := apiKey\<rparr>)\<rparr>)"
  by (simp add: WithCredentials_def write_field_Ref and_then_Inr)

lemma WithClient_Ref:
  "WithClient s (Ref a) client =
     Inr (Ref a, s\<lparr>configs := (configs s)(a := (configs s a)\<lparr>Client := client\<rparr>)\<rparr>)"
  by (simp add: WithClient_def write_field_Ref and_then_Inr)

lemma WithBaseURL_Ref:
  "WithBaseURL s (Ref a) url =
     Inr (Ref a, s\<lparr>configs := (configs s)(a := (configs s a)\<lparr>BaseUrl := url\<rparr>)\<rparr>)"
  by (simp add: WithBaseURL_def write_field_Ref and_then_Inr)

lemma WithVersion_Ref:
  "WithVersion s (Ref a) version =
     Inr (Ref a, s\<lparr>configs := (configs s)(a := (configs s a)\<lparr>ApiVersion := version\<rparr>)\<rparr>)"
  by (simp add: WithVersion_def write_field_Ref and_then_Inr)

lemma WithLogger_Ref:
  "WithLogger s (Ref a) logger =
     Inr (Ref a, s\<lparr>configs := (configs s)(a := (configs s a)\<lparr>Logger := logger\<rparr>)\<rparr>)"
  by (simp add: WithLogger_def write_field_Ref and_then_Inr)

lemma NewConfig_ptr: "fst (NewConfig s username password apiKey) = Ref (next_config s)"
  by (simp add: NewConfig_def Let_def)

lemma NewConfig_object:
  "configs (snd (NewConfig s username password apiKey)) (next_config s) =
     \<lparr>Username = username, Password = password, ApiKey = apiKey,
      BaseUrl = defaultUrl, ApiVersion = defaultVersion,
      Client = HTTPClient_http_Client (defaultClient s),
      Logger = Logger_LeveledLogger (defaultLogger s)\<rparr>"
  by (simp add: NewConfig_def Let_def)

lemma example_state_object:
  "configs example_state 0 =
     \<lparr>Username = ''user'', Password = ''pass'', ApiKey = ''key'',
      BaseUrl = defaultUrl, ApiVersion = defaultVersion,
      Client = HTTPClient_http_Client (Ref 0), Logger = Logger_LeveledLogger (Ref 0)\<rparr>"
  by (simp add: example_state_def NewConfig_def Let_def init_state_def)

lemma other_state_object:
  "configs other_state 0 =
     \<lparr>Username = ''alice'', Password = ''secret'', ApiKey = ''abc'',
      BaseUrl = defaultUrl, ApiVersion = defaultVersion,
      Client = HTTPClient_impl 7, Logger = Logger_impl 3\<rparr>"
  by (simp add: other_state_def)

subsection \<open>The endpoint URL\<close>

text \<open>
  C1. For every configuration and every service and endpoint, \<open>GetEndpointURL\<close> returns the
  base URL, the service, the API version and the endpoint with one slash between each two,
  byte for byte: nothing is escaped, no slash is dropped or collapsed, no segment is trimmed.
\<close>

theorem GetEndpointURL_concat:
  "GetEndpointURL s (Ref a) service endpoint =
     Inr (BaseUrl (configs s a) @ ''/'' @ service @ ''/'' @
          ApiVersion (configs s a) @ ''/'' @ endpoint)"
  by (simp add: GetEndpointURL_def read_field_Ref and_then_Inr)

text \<open>
  C9. \<open>GetEndpointURL\<close> has no nil-receiver guard: on a nil configuration it panics with a
  nil dereference, whatever the service and the endpoint are.
\<close>

theorem GetEndpointURL_nil_panics:
  "GetEndpointURL s NilPtr service endpoint = Inl NilPointerDereference"
  by (simp add: GetEndpointURL_def read_field_NilPtr and_then_Inl)

text \<open>
  C10. The URL depends on the base URL and the API version only: two configurations that
  agree on these two fields give the same URL for the same service and endpoint, whatever
  their credentials, clients and loggers are, and whatever else the two states hold.
\<close>

theorem GetEndpointURL_noninterference:
  assumes "BaseUrl (configs s1 a1) = BaseUrl (configs s2 a2)"
    and "ApiVersion (configs s1 a1) = ApiVersion (configs s2 a2)"
  shows "GetEndpointURL s1 (Ref a1) service endpoint =
         GetEndpointURL s2 (Ref a2) service endpoint"
  using assms by (simp add: GetEndpointURL_Ref)

theorem GetEndpointURL_noninterference_witness:
  "BaseUrl (configs example_state 0) = BaseUrl (configs other_state 0) \<and>
   ApiVersion (configs example_state 0) = ApiVersion (configs other_state 0) \<and>
   Username (configs example_state 0) \<noteq> Username (configs other_state 0) \<and>
   Password (configs example_state 0) \<noteq> Password (configs other_state 0) \<and>
   ApiKey (configs example_state 0) \<noteq> ApiKey (configs other_state 0) \<and>
   Client (configs example_state 0) \<noteq> Client (configs other_state 0) \<and>
   Logger (configs example_state 0) \<noteq> Logger (configs other_state 0) \<and>
   GetEndpointURL example_state (Ref 0) ''ocr'' ''ktp'' =
     GetEndpointURL other_state (Ref 0) ''ocr'' ''ktp'' \<and>
   GetEndpointURL example_state (Ref 0) ''ocr'' ''ktp'' =
     Inr ''https://api.vision.glair.ai/ocr/v1/ktp''"
proof -
  have b: "BaseUrl (configs example_state 0) = BaseUrl (configs other_state 0)"
    by (simp add: example_state_object other_state_object)
  have v: "ApiVersion (configs example_state 0) = ApiVersion (configs other_state 0)"
    by (simp add: example_state_object other_state_object)
  have same: "GetEndpointURL example_state (Ref 0) ''ocr'' ''ktp'' =
      GetEndpointURL other_state (Ref 0) ''ocr'' ''ktp''"
    by (rule GetEndpointURL_noninterference [OF b v])
  have url: "GetEndpointURL other_state (Ref 0) ''ocr'' ''ktp'' =
      Inr ''https://api.vision.glair.ai/ocr/v1/ktp''"
    by (simp add: GetEndpointURL_Ref other_state_object defaultUrl_def defaultVersion_def)
  show ?thesis
    using b v same url by (simp add: example_state_object other_state_object)
qed

subsection \<open>Construction\<close>

text \<open>
  C2. For every three strings, \<open>NewConfig\<close> returns a configuration whose \<open>Username\<close>,
  \<open>Password\<close> and \<open>ApiKey\<close> are the three arguments in this order, whose \<open>BaseUrl\<close> is
  "https://api.vision.glair.ai" and whose \<open>ApiVersion\<close> is "v1". The fields are read through
  the pointer that \<open>NewConfig\<close> returns, in the state it leaves.
\<close>

theorem NewConfig_fields:
  "read_field (snd (NewConfig s user pass key)) (fst (NewConfig s user pass key)) Username
     = Inr user \<and>
   read_field (snd (NewConfig s user pass key)) (fst (NewConfig s user pass key)) Password
     = Inr pass \<and>
   read_field (snd (NewConfig s user pass key)) (fst (NewConfig s user pass key)) ApiKey
     = Inr key \<and>
   read_field (snd (NewConfig s user pass key)) (fst (NewConfig s user pass key)) BaseUrl
     = Inr ''https://api.vision.glair.ai'' \<and>
   read_field (snd (NewConfig s user pass key)) (fst (NewConfig s user pass key)) ApiVersion
     = Inr ''v1''"
  by (simp add: NewConfig_ptr read_field_Ref NewConfig_object defaultUrl_def defaultVersion_def)

text \<open>
  C6. \<open>NewConfig\<close> has no failing path: for every three strings it returns a pointer that is
  not nil, to an object in which no field is nil. The five string fields cannot be nil in Go;
  the \<open>Client\<close> field holds the package default \<open>defaultClient\<close> and the \<open>Logger\<close> field the
  package default \<open>defaultLogger\<close>, and neither of these interface values is the nil
  interface. After package initialisation both defaults are pointers to objects.
\<close>

theorem NewConfig_never_nil:
  "fst (NewConfig s username password apiKey) \<noteq> NilPtr \<and>
   read_field (snd (NewConfig s username password apiKey))
     (fst (NewConfig s username password apiKey)) Client
     = Inr (HTTPClient_http_Client (defaultClient s)) \<and>
   read_field (snd (NewConfig s username password apiKey))
     (fst (NewConfig s username password apiKey)) Logger
     = Inr (Logger_LeveledLogger (defaultLogger s)) \<and>
   read_field (snd (NewConfig s username password apiKey))
     (fst (NewConfig s username password apiKey))
     (\<lambda>cfg. Client cfg \<noteq> HTTPClient_nil \<and> Logger cfg \<noteq> Logger_nil) = Inr True \<and>
   defaultClient init_state \<noteq> NilPtr \<and> defaultLogger init_state \<noteq> NilPtr"
  by (simp add: NewConfig_ptr read_field_Ref NewConfig_object init_state_def)

text \<open>
  C7. Building a configuration from "u", "p", "k" and asking it for the URL of service "ocr",
  endpoint "ktp" gives "https://api.vision.glair.ai/ocr/v1/ktp", in every state.
\<close>

theorem NewConfig_GetEndpointURL_example:
  "GetEndpointURL (snd (NewConfig s ''u'' ''p'' ''k'')) (fst (NewConfig s ''u'' ''p'' ''k''))
     ''ocr'' ''ktp'' = Inr ''https://api.vision.glair.ai/ocr/v1/ktp''"
  by (simp add: NewConfig_ptr GetEndpointURL_Ref NewConfig_object defaultUrl_def
      defaultVersion_def)

subsection \<open>The setters\<close>

text \<open>
  C3. Each of the five setters, called on a nil configuration with any argument, returns nil
  without a panic and leaves the whole state as it was.
\<close>

theorem setters_nil_safe:
  "WithCredentials s NilPtr username password apiKey = Inr (NilPtr, s) \<and>
   WithClient s NilPtr client = Inr (NilPtr, s) \<and>
   WithBaseURL s NilPtr url = Inr (NilPtr, s) \<and>
   WithVersion s NilPtr version = Inr (NilPtr, s) \<and>
   WithLogger s NilPtr logger = Inr (NilPtr, s)"
  by (simp add: WithCredentials_def WithClient_def WithBaseURL_def WithVersion_def
      WithLogger_def)

text \<open>
  C4. On a configuration that is not nil, calling a setter a second time with the same
  argument, on the pointer the first call returned, gives the result of the first call: the
  same pointer and the same state, hence the same seven fields. No call panics.
\<close>

theorem setters_idempotent:
  "and_then (WithCredentials s (Ref a) username password apiKey)
     (\<lambda>(c', s'). WithCredentials s' c' username password apiKey)
     = WithCredentials s (Ref a) username password apiKey \<and>
   and_then (WithClient s (Ref a) client) (\<lambda>(c', s'). WithClient s' c' client)
     = WithClient s (Ref a) client \<and>
   and_then (WithBaseURL s (Ref a) url) (\<lambda>(c', s'). WithBaseURL s' c' url)
     = WithBaseURL s (Ref a) url \<and>
   and_then (WithVersion s (Ref a) version) (\<lambda>(c', s'). WithVersion s' c' version)
     = WithVersion s (Ref a) version \<and>
   and_then (WithLogger s (Ref a) logger) (\<lambda>(c', s'). WithLogger s' c' logger)
     = WithLogger s (Ref a) logger \<and>
   \<not> isl (WithCredentials s (Ref a) username password apiKey) \<and>
   \<not> isl (WithClient s (Ref a) client) \<and>
   \<not> isl (WithBaseURL s (Ref a) url) \<and>
   \<not> isl (WithVersion s (Ref a) version) \<and>
   \<not> isl (WithLogger s (Ref a) logger)"
  by (simp add: WithCredentials_Ref WithClient_Ref WithBaseURL_Ref WithVersion_Ref
      WithLogger_Ref and_then_Inr)

text \<open>
  C8. For a configuration built by \<open>NewConfig\<close> from any credentials, after
  \<open>WithBaseURL\<close> with "http://localhost:8080" and then \<open>WithVersion\<close> with "v2" on the
  pointer the first setter returned, \<open>GetEndpointURL\<close> on the original pointer, for service
  "face" and endpoint "liveness", returns "http://localhost:8080/face/v2/liveness".
\<close>

theorem chained_setters_example:
  "(case NewConfig s username password apiKey of
      (cfg, s1) \<Rightarrow>
        and_then (WithBaseURL s1 cfg ''http://localhost:8080'') (\<lambda>(c1, s2).
        and_then (WithVersion s2 c1 ''v2'') (\<lambda>(c2, s3).
          GetEndpointURL s3 cfg ''face'' ''liveness'')))
   = Inr ''http://localhost:8080/face/v2/liveness''"
  by (simp add: NewConfig_def Let_def WithBaseURL_Ref WithVersion_Ref and_then_Inr
      GetEndpointURL_Ref)

text \<open>
  The claim that every setter writes exactly one of the seven fields fails for
  \<open>WithCredentials\<close>: on the configuration of \<open>example_state\<close>, with three new credentials,
  three fields differ afterwards.
\<close>

theorem WithCredentials_changes_three_fields:
  "\<not> length (changed_fields example_state 0
        (WithCredentials example_state (Ref 0) ''alice'' ''secret'' ''abc'')) \<le> 1 \<and>
   changed_fields example_state 0
        (WithCredentials example_state (Ref 0) ''alice'' ''secret'' ''abc'')
     = [F_Username, F_Password, F_ApiKey]"
  by (simp add: WithCredentials_Ref changed_fields_def differing_fields_def
      example_state_object)

text \<open>
  C5, amended. On a configuration that is not nil, \<open>WithClient\<close>, \<open>WithBaseURL\<close>,
  \<open>WithVersion\<close> and \<open>WithLogger\<close> each assign one field (\<open>Client\<close>, \<open>BaseUrl\<close>,
  \<open>ApiVersion\<close>, \<open>Logger\<close>) and \<open>WithCredentials\<close> assigns the three credential fields
  \<open>Username\<close>, \<open>Password\<close> and \<open>ApiKey\<close>. Every other field of the configuration, every
  other configuration and the package variables keep their values, and the setter returns
  the pointer it was called on.
\<close>

theorem setters_frame:
  "WithCredentials s (Ref a) username password apiKey =
     Inr (Ref a, s\<lparr>configs := (configs s)
       (a := (configs s a)\<lparr>Username := username, Password := password, ApiKey := apiKey\<rparr>)\<rparr>) \<and>
   WithClient s (Ref a) client =
     Inr (Ref a, s\<lparr>configs := (configs s)(a := (configs s a)\<lparr>Client := client\<rparr>)\<rparr>) \<and>
   WithBaseURL s (Ref a) url =
     Inr (Ref a, s\<lparr>configs := (configs s)(a := (configs s a)\<lparr>BaseUrl := url\<rparr>)\<rparr>) \<and>
   WithVersion s (Ref a) version =
     Inr (Ref a, s\<lparr>configs := (configs s)(a := (configs s a)\<lparr>ApiVersion := version\<rparr>)\<rparr>) \<and>
   WithLogger s (Ref a) logger =
     Inr (Ref a, s\<lparr>configs := (configs s)(a := (configs s a)\<lparr>Logger := logger\<rparr>)\<rparr>) \<and>
   set (changed_fields s a (WithCredentials s (Ref a) username password apiKey))
     \<subseteq> {F_Username, F_Password, F_ApiKey} \<and>
   set (changed_fields s a (WithClient s (Ref a) client)) \<subseteq> {F_Client} \<and>
   set (changed_fields s a (WithBaseURL s (Ref a) url)) \<subseteq> {F_BaseUrl} \<and>
   set (changed_fields s a (WithVersion s (Ref a) version)) \<subseteq> {F_ApiVersion} \<and>
   set (changed_fields s a (WithLogger s (Ref a) logger)) \<subseteq> {F_Logger}"
  by (simp add: WithCredentials_Ref WithClient_Ref WithBaseURL_Ref WithVersion_Ref
      WithLogger_Ref changed_fields_def differing_fields_def)

end
